theory Spec2Isabelle
  imports Main "HOL-Library.Word" "HOL-Library.AList" "HOL-Library.Multiset"
begin

section \<open>The discovery accumulator of \<open>ymalRepresentation.py\<close>\<close>

text \<open>
  The module keeps a \<open>HaConfig\<close> object: a dictionary \<open>eltako\<close> from role names to
  lists of device dictionaries, the list \<open>sener_id_list\<close> of sensor addresses already
  recorded, and the default sender address. Python dictionaries keep insertion order, so
  \<open>eltako\<close> is an association list. Device dictionaries have a fixed set of possible keys;
  a key that is absent is \<open>None\<close>. Exceptions are values (\<open>Inl\<close>). Calls of
  \<open>logging\<close> do not touch the object and are left out.
\<close>

subsection \<open>Python string formatting\<close>

type_synonym byte = "8 word"

definition hex_digit :: "nat \<Rightarrow> char" where
  "hex_digit d = ''0123456789abcdef'' ! (d mod 16)"

function hex_nat :: "nat \<Rightarrow> string" where
  "hex_nat n = (if n < 16 then [hex_digit n] else hex_nat (n div 16) @ [hex_digit (n mod 16)])"
  by pat_completeness auto
termination
  by (relation "measure (\<lambda>n. n)") auto

declare hex_nat.simps [simp del]

definition dec_digit :: "nat \<Rightarrow> char" where
  "dec_digit d = ''0123456789'' ! (d mod 10)"

function dec_nat :: "nat \<Rightarrow> string" where
  "dec_nat n = (if n < 10 then [dec_digit n] else dec_nat (n div 10) @ [dec_digit (n mod 10)])"
  by pat_completeness auto
termination
  by (relation "measure (\<lambda>n. n)") auto

declare dec_nat.simps [simp del]

text \<open>\<open>str(i)\<close>, as the f-string \<open>{device.address+i}\<close> prints an integer.\<close>

definition str_int :: "int \<Rightarrow> string" where
  "str_int i = (if i < 0 then CHR ''-'' # dec_nat (nat (- i)) else dec_nat (nat i))"

definition zfill :: "nat \<Rightarrow> string \<Rightarrow> string" where
  "zfill w s = replicate (w - length s) CHR ''0'' @ s"

text \<open>
  The format specification \<open>08x\<close>: lower-case hexadecimal, padded with zeros to a total
  width of 8; the sign of a negative number comes first and counts in the width.
\<close>

definition format_08x :: "int \<Rightarrow> string" where
  "format_08x a =
     (if a < 0 then CHR ''-'' # zfill 7 (hex_nat (nat (- a))) else zfill 8 (hex_nat (nat a)))"

definition char_upper :: "char \<Rightarrow> char" where
  "char_upper c =
     (if (97::nat) \<le> of_char c \<and> of_char c \<le> (122::nat)
      then char_of (of_char c - (32::nat)) else c)"

definition str_upper :: "string \<Rightarrow> string" where
  "str_upper s = map char_upper s"

text \<open>The slice \<open>a[i:j]\<close> for \<open>0 \<le> i \<le> j\<close>; it is shorter when \<open>a\<close> ends early.\<close>

definition str_slice :: "nat \<Rightarrow> nat \<Rightarrow> 'a list \<Rightarrow> 'a list" where
  "str_slice i j xs = take (j - i) (drop i xs)"

definition str_replace_char :: "char \<Rightarrow> char \<Rightarrow> string \<Rightarrow> string" where
  "str_replace_char old new s = map (\<lambda>c. if c = old then new else c) s"

fun str_join :: "string \<Rightarrow> string list \<Rightarrow> string" where
  "str_join sep [] = []"
| "str_join sep [x] = x"
| "str_join sep (x # y # ys) = x @ sep @ str_join sep (y # ys)"

text \<open>
  Modelled from the spec: \<open>b2a\<close> is imported from the bus library, which is not part of
  the sources. The spec gives the result, after the replacement of blanks by hyphens and
  the upper-casing done at the call site, as the hyphenated hex string of the address; so
  \<open>b2a\<close> prints every byte as two lower-case hex digits and separates the bytes by one
  blank.
\<close>

definition b2a :: "byte list \<Rightarrow> string" where
  "b2a rawdata = str_join '' '' (map (\<lambda>b. zfill 2 (hex_nat (unat b))) rawdata)"

subsection \<open>Comparison of \<open>bytes\<close> values\<close>

text \<open>Python orders \<open>bytes\<close> lexicographically; a proper prefix is smaller.\<close>

fun bytes_le :: "byte list \<Rightarrow> byte list \<Rightarrow> bool" where
  "bytes_le [] ys = True"
| "bytes_le (x # xs) [] = False"
| "bytes_le (x # xs) (y # ys) = (x < y \<or> (x = y \<and> bytes_le xs ys))"

fun bytes_lt :: "byte list \<Rightarrow> byte list \<Rightarrow> bool" where
  "bytes_lt xs [] = False"
| "bytes_lt [] (y # ys) = True"
| "bytes_lt (x # xs) (y # ys) = (x < y \<or> (x = y \<and> bytes_lt xs ys))"

text \<open>\<open>n.to_bytes(2, 'big')\<close>; a number that does not fit raises \<open>OverflowError\<close>.\<close>

definition to_bytes_2_big :: "nat \<Rightarrow> byte list option" where
  "to_bytes_2_big n =
     (if n < 65536 then Some [of_nat (n div 256), of_nat (n mod 256)] else None)"

subsection \<open>The static tables\<close>

record profile =
  hw_type :: string
  info_eep :: string
  info_sender_eep :: "string option"
  info_type :: string
  description :: string
  address_count :: int

definition mk_profile ::
  "string \<Rightarrow> string \<Rightarrow> string option \<Rightarrow> string \<Rightarrow> string \<Rightarrow> int \<Rightarrow> profile" where
  "mk_profile h e se t d n =
     \<lparr>hw_type = h, info_eep = e, info_sender_eep = se, info_type = t, description = d,
      address_count = n\<rparr>"

definition EEP_MAPPING :: "profile list" where
  "EEP_MAPPING =
    [mk_profile ''FTS14EM'' ''F6-02-01'' None ''binary_sensor'' ''Rocker switch'' 1,
     mk_profile ''FTS14EM'' ''F6-02-02'' None ''binary_sensor'' ''Rocker switch'' 1,
     mk_profile ''FTS14EM'' ''F6-10-00'' None ''binary_sensor'' ''Window handle'' 1,
     mk_profile ''FTS14EM'' ''D5-00-01'' None ''binary_sensor'' ''Contact sensor'' 1,
     mk_profile ''FTS14EM'' ''A5-08-01'' None ''binary_sensor'' ''Occupancy sensor'' 1,
     mk_profile ''FWG14'' ''A5-13-01'' None ''sensor'' ''Weather station'' 1,
     mk_profile ''FTS14EM'' ''A5-12-01'' None ''sensor'' ''Window handle'' 1,
     mk_profile ''FSDG14'' ''A5-12-02'' None ''sensor''
       ''Automated meter reading - electricity'' 1,
     mk_profile ''F3Z14D'' ''A5-13-01'' None ''sensor'' ''Automated meter reading - gas'' 1,
     mk_profile ''F3Z14D'' ''A5-12-03'' None ''sensor'' ''Automated meter reading - water'' 1,
     mk_profile ''FUD14'' ''A5-38-08'' (Some ''A5-38-08'') ''light''
       ''Central command - gateway'' 1,
     mk_profile ''FSR14_1x'' ''M5-38-08'' (Some ''A5-38-08'') ''light'' ''Eltako relay'' 1,
     mk_profile ''FSR14_x2'' ''M5-38-08'' (Some ''A5-38-08'') ''light'' ''Eltako relay'' 2,
     mk_profile ''FSR14_4x'' ''M5-38-08'' (Some ''A5-38-08'') ''light'' ''Eltako relay'' 4,
     mk_profile ''FSR14_1x'' ''M5-38-08'' (Some ''A5-38-08'') ''switch'' ''Eltako relay'' 1,
     mk_profile ''FSR14_x2'' ''M5-38-08'' (Some ''A5-38-08'') ''switch'' ''Eltako relay'' 2,
     mk_profile ''FSR14_4x'' ''M5-38-08'' (Some ''A5-38-08'') ''switch'' ''Eltako relay'' 4,
     mk_profile ''FSB14'' ''G5-3F-7F'' (Some ''H5-3F-7F'') ''cover'' ''Eltako cover'' 1]"

record org_info =
  org_telegram :: string
  org_rorg :: string
  org_name :: string
  org_type :: string
  org_eep :: string

definition ORG_MAPPING :: "int \<rightharpoonup> org_info" where
  "ORG_MAPPING k =
     (if k = 5 then Some \<lparr>org_telegram = ''RPS'', org_rorg = ''F6'', org_name = ''Switch'',
        org_type = ''binary_sensor'', org_eep = ''F6-02-01''\<rparr>
      else if k = 6 then Some \<lparr>org_telegram = ''1BS'', org_rorg = ''D5'',
        org_name = ''1 Byte Communication'', org_type = ''sensor'', org_eep = ''D5-??-??''\<rparr>
      else if k = 7 then Some \<lparr>org_telegram = ''4BS'', org_rorg = ''A5'',
        org_name = ''4 Byte Communication'', org_type = ''sensor'', org_eep = ''A5-??-??''\<rparr>
      else None)"

subsection \<open>Telegrams and bus objects\<close>

text \<open>
  The message classes belong to the bus library. A telegram is what the module reads of
  one: its class, whether it has an attribute \<open>outgoing\<close> (the test is \<open>hasattr\<close>, so
  the value of the attribute plays no role), the organization code, the address and the
  body, both \<open>bytes\<close>.
\<close>

datatype msg_type =
  EltakoWrappedRPS | EltakoWrapped4BS | RPSMessage | Regular4BSMessage | Regular1BSMessage
  | EltakoMessage | EltakoDiscoveryRequest | ESP2Message | OtherMessage string

fun type_name :: "msg_type \<Rightarrow> string" where
  "type_name EltakoWrappedRPS = ''EltakoWrappedRPS''"
| "type_name EltakoWrapped4BS = ''EltakoWrapped4BS''"
| "type_name RPSMessage = ''RPSMessage''"
| "type_name Regular4BSMessage = ''Regular4BSMessage''"
| "type_name Regular1BSMessage = ''Regular1BSMessage''"
| "type_name EltakoMessage = ''EltakoMessage''"
| "type_name EltakoDiscoveryRequest = ''EltakoDiscoveryRequest''"
| "type_name ESP2Message = ''ESP2Message''"
| "type_name (OtherMessage n) = n"

definition SENSOR_MESSAGE_TYPES :: "msg_type list" where
  "SENSOR_MESSAGE_TYPES =
     [EltakoWrappedRPS, EltakoWrapped4BS, RPSMessage, Regular4BSMessage, Regular1BSMessage,
      EltakoMessage]"

record telegram =
  msg_class :: msg_type
  has_outgoing :: bool
  org :: int
  address :: "byte list"
  body :: "byte list"

text \<open>A bus object: the name of its class and its (integer) bus address.\<close>

record bus_object =
  class_name :: string
  dev_address :: int

subsection \<open>The accumulator\<close>

record sender_obj =
  sender_id :: string
  sender_eep :: string

record dev_obj =
  obj_id :: string
  obj_eep :: string
  obj_name :: string
  obj_sender :: "sender_obj option"
  obj_device_class :: "string option"
  obj_time_closes :: "int option"
  obj_time_opens :: "int option"
  obj_comment :: "string option"

record HaConfig =
  eltako :: "(string \<times> dev_obj list) list"
  sener_id_list :: "byte list list"
  sender_address :: int
  export_logger :: bool

datatype key = StrKey string | IntKey int

datatype error = KeyError key

definition HaConfig_init :: "int \<Rightarrow> bool \<Rightarrow> HaConfig" where
  "HaConfig_init default_sender_address save_debug_log_config =
     \<lparr>eltako = [], sener_id_list = [], sender_address = default_sender_address,
      export_logger = save_debug_log_config\<rparr>"

definition find_device_info :: "string \<Rightarrow> profile option" where
  "find_device_info name = find (\<lambda>i. hw_type i = name) EEP_MAPPING"

definition get_formatted_address :: "int \<Rightarrow> string" where
  "get_formatted_address addr =
     (let a = str_upper (format_08x addr)
      in str_slice 0 2 a @ ''-'' @ str_slice 2 4 a @ ''-'' @ str_slice 4 6 a @ ''-'' @ str_slice 6 8 a)"

text \<open>
  \<open>self.eltako[k].append(x)\<close>: the list under \<open>k\<close> grows in place, the key keeps its
  position; a missing key raises.
\<close>

definition dict_append ::
  "string \<Rightarrow> dev_obj \<Rightarrow> (string \<times> dev_obj list) list \<Rightarrow> error + (string \<times> dev_obj list) list"
  where
  "dict_append k x d =
     (case map_of d k of
        None \<Rightarrow> Inl (KeyError (StrKey k))
      | Some l \<Rightarrow> Inr (AList.update k (l @ [x]) d))"

text \<open>\<open>if k not in self.eltako: self.eltako[k] = []\<close>: a new key goes to the end.\<close>

definition dict_setdefault ::
  "string \<Rightarrow> (string \<times> dev_obj list) list \<Rightarrow> (string \<times> dev_obj list) list" where
  "dict_setdefault k d = (if map_of d k = None then AList.update k [] d else d)"

text \<open>The body of the loop of \<open>add_device\<close>, for one offset \<open>i\<close>.\<close>

definition add_device_step :: "string \<Rightarrow> bus_object \<Rightarrow> profile \<Rightarrow> HaConfig \<Rightarrow> int \<Rightarrow> error + HaConfig"
  where
  "add_device_step device_name device info self i =
     (let dev_obj0 =
        \<lparr>obj_id = get_formatted_address (dev_address device + i),
         obj_eep = info_eep info,
         obj_name = device_name @ '' - '' @ str_int (dev_address device + i),
         obj_sender = None, obj_device_class = None, obj_time_closes = None,
         obj_time_opens = None, obj_comment = None\<rparr>
      in
      case (if info_type info \<in> set [''light'', ''switch'', ''cover'']
            then (case info_sender_eep info of
                    None \<Rightarrow> Inl (KeyError (StrKey ''sender_eep''))
                  | Some se \<Rightarrow>
                      Inr (dev_obj0\<lparr>obj_sender := Some
                        \<lparr>sender_id = get_formatted_address
                           (sender_address self + dev_address device + i),
                         sender_eep = se\<rparr>\<rparr>))
            else Inr dev_obj0) of
        Inl e \<Rightarrow> Inl e
      | Inr dev_obj1 \<Rightarrow>
          (let dev_obj2 =
             (if info_type info = ''cover''
              then dev_obj1\<lparr>obj_device_class := Some ''shutter'',
                     obj_time_closes := Some 24, obj_time_opens := Some 25\<rparr>
              else dev_obj1)
           in
           case dict_append (info_type info) dev_obj2
                  (dict_setdefault (info_type info) (eltako self)) of
             Inl e \<Rightarrow> Inl e
           | Inr d \<Rightarrow> Inr (self\<lparr>eltako := d\<rparr>)))"

text \<open>\<open>for i in range(0, n)\<close>: the offsets in order; an exception ends the loop.\<close>

definition py_range0 :: "int \<Rightarrow> int list" where
  "py_range0 n = map int [0..<nat n]"

fun add_device_loop ::
  "string \<Rightarrow> bus_object \<Rightarrow> profile \<Rightarrow> HaConfig \<Rightarrow> int list \<Rightarrow> error + HaConfig" where
  "add_device_loop device_name device info self [] = Inr self"
| "add_device_loop device_name device info self (i # is) =
     (case add_device_step device_name device info self i of
        Inl e \<Rightarrow> Inl e
      | Inr self' \<Rightarrow> add_device_loop device_name device info self' is)"

definition add_device :: "HaConfig \<Rightarrow> bus_object \<Rightarrow> error + HaConfig" where
  "add_device self device =
     (let device_name = class_name device in
      case find_device_info device_name of
        None \<Rightarrow> Inr self
      | Some info \<Rightarrow>
          add_device_loop device_name device info self (py_range0 (address_count info)))"

text \<open>
  \<open>guess_sensor_type_by_address\<close>. \<open>Regular1BSMessage.parse\<close> belongs to the bus
  library and is a parameter: it returns the parsed telegram, or \<open>None\<close> when it raises.
  The \<open>try\<close> block swallows every exception and the next rule is tried.
\<close>

definition min_address :: "byte list" where
  "min_address = [0x00, 0x00, 0x10, 0x01]"

definition max_address :: "byte list" where
  "max_address = [0x00, 0x00, 0x14, 0x89]"

definition reinterpret :: "(byte list \<Rightarrow> telegram option) \<Rightarrow> telegram \<Rightarrow> telegram option" where
  "reinterpret parse msg =
     (case to_bytes_2_big (sum_list (map unat (butlast (body msg))) mod 256) of
        None \<Rightarrow> None
      | Some cs \<Rightarrow> parse ([0xa5, 0x5a] @ butlast (body msg) @ cs))"

definition guess_sensor_type_by_address ::
  "(byte list \<Rightarrow> telegram option) \<Rightarrow> telegram \<Rightarrow> string" where
  "guess_sensor_type_by_address parse msg =
     (if msg_class msg = Regular1BSMessage \<and>
         (case reinterpret parse msg of
            None \<Rightarrow> False
          | Some m \<Rightarrow> bytes_le min_address (address m) \<and> bytes_le (address m) max_address)
      then ''FTS14EM switch''
      else if msg_class msg = RPSMessage \<and> bytes_lt [0xFE, 0xDB, 0x00, 0x00] (address msg)
      then ''Wall Switch /Rocker Switch''
      else if msg_class msg = Regular4BSMessage then ''Multi-Sensor ? ''
      else ''???'')"

text \<open>The address string of a sensor record: \<open>b2a(msg.address).replace(' ','-').upper()\<close>.\<close>

definition sensor_address_str :: "byte list \<Rightarrow> string" where
  "sensor_address_str a = str_upper (str_replace_char CHR '' '' CHR ''-'' (b2a a))"

definition add_sensor ::
  "(byte list \<Rightarrow> telegram option) \<Rightarrow> HaConfig \<Rightarrow> telegram \<Rightarrow> error + HaConfig" where
  "add_sensor parse self msg =
     (if msg_class msg \<in> set SENSOR_MESSAGE_TYPES then
        (if has_outgoing msg then
           (if address msg \<notin> set (sener_id_list self) then
              (case ORG_MAPPING (org msg) of
                 None \<Rightarrow> Inl (KeyError (IntKey (org msg)))
               | Some info \<Rightarrow>
                   (let addr = sensor_address_str (address msg);
                        sensor_type = guess_sensor_type_by_address parse msg;
                        msg_type = type_name (msg_class msg);
                        comment = ''Sensor Type: '' @ sensor_type
                                  @ '', Derived from Msg Type: '' @ msg_type;
                        sensor0 =
                          \<lparr>obj_id = addr, obj_eep = org_eep info,
                           obj_name = org_name info @ '' '' @ addr,
                           obj_sender = None, obj_device_class = None,
                           obj_time_closes = None, obj_time_opens = None,
                           obj_comment = Some comment\<rparr>;
                        sensor =
                          (if org_type info = ''binary_sensor''
                           then sensor0\<lparr>obj_device_class :=
                                  Some ''window / door / smoke / motion / ?''\<rparr>
                           else sensor0)
                    in
                    case dict_append (org_type info) sensor
                           (dict_setdefault (org_type info) (eltako self)) of
                      Inl e \<Rightarrow> Inl e
                    | Inr d \<Rightarrow>
                        Inr (self\<lparr>eltako := d,
                               sener_id_list := sener_id_list self @ [address msg]\<rparr>)))
            else Inr self)
         else Inr self)
      else Inr self)"

text \<open>Feeding a sequence of telegrams; an exception ends the run.\<close>

fun add_sensors ::
  "(byte list \<Rightarrow> telegram option) \<Rightarrow> HaConfig \<Rightarrow> telegram list \<Rightarrow> error + HaConfig" where
  "add_sensors parse self [] = Inr self"
| "add_sensors parse self (m # ms) =
     (case add_sensor parse self m of
        Inl e \<Rightarrow> Inl e
      | Inr self' \<Rightarrow> add_sensors parse self' ms)"

text \<open>The list stored under a role (empty when the role has no key yet), and all records.\<close>

definition role_list :: "HaConfig \<Rightarrow> string \<Rightarrow> dev_obj list" where
  "role_list self k = (case map_of (eltako self) k of None \<Rightarrow> [] | Some l \<Rightarrow> l)"

definition all_records :: "HaConfig \<Rightarrow> dev_obj list" where
  "all_records self = concat (map snd (eltako self))"

subsection \<open>Notions used in the proofs\<close>

text \<open>
  Every access \<open>info['sender_eep']\<close> in \<open>add_device\<close> finds its key when the profile
  satisfies this condition.
\<close>

definition actuator_ok :: "profile \<Rightarrow> bool" where
  "actuator_ok info =
     (info_type info \<in> set [''light'', ''switch'', ''cover''] \<longrightarrow> info_sender_eep info \<noteq> None)"

text \<open>
  The number that a \<open>bytes\<close> value stands for when read big-endian, as an address is
  written in hexadecimal.
\<close>

definition be_nat :: "byte list \<Rightarrow> nat" where
  "be_nat bs = foldl (\<lambda>acc b. 256 * acc + unat b) 0 bs"

text \<open>
  Two notions for the proofs about hexadecimal formatting: the upper-case digit, and the
  hexadecimal numeral of a fixed width \<open>k\<close> (the last \<open>k\<close> digits, leading zeros kept).
\<close>

definition upper_hex_digit :: "nat \<Rightarrow> char" where
  "upper_hex_digit d = ''0123456789ABCDEF'' ! (d mod 16)"

primrec fixed_hex :: "nat \<Rightarrow> nat \<Rightarrow> string" where
  "fixed_hex 0 n = []"
| "fixed_hex (Suc k) n = fixed_hex k (n div 16) @ [hex_digit (n mod 16)]"

text \<open>The hyphenation that \<open>get_formatted_address\<close> applies to the eight digits.\<close>

definition hyphenate :: "string \<Rightarrow> string" where
  "hyphenate a = str_slice 0 2 a @ ''-'' @ str_slice 2 4 a @ ''-'' @ str_slice 4 6 a @ ''-'' @ str_slice 6 8 a"

text \<open>
  A sensor telegram that \<open>add_sensor\<close> processes: its class is one of
  \<open>SENSOR_MESSAGE_TYPES\<close>, it has the attribute \<open>outgoing\<close>, and its organization code
  is a key of \<open>ORG_MAPPING\<close>.
\<close>

definition live_sensor_telegram :: "telegram \<Rightarrow> bool" where
  "live_sensor_telegram m =
     (msg_class m \<in> set SENSOR_MESSAGE_TYPES \<and> has_outgoing m \<and> org m \<in> {5, 6, 7})"

section \<open>Properties\<close>

subsection \<open>The effect of \<open>add_device\<close>\<close>

lemma EEP_MAPPING_actuator_ok: "\<forall>info \<in> set EEP_MAPPING. actuator_ok info"
  by (simp add: EEP_MAPPING_def mk_profile_def actuator_ok_def)

lemma find_device_info_ok:
  "find_device_info name = Some info \<Longrightarrow> actuator_ok info"
  using EEP_MAPPING_actuator_ok
  by (auto simp: find_device_info_def find_Some_iff)

lemma role_list_push:
  "role_list (self\<lparr>eltako := AList.update t (role_list self t @ [x]) (dict_setdefault t (eltako self))\<rparr>) k
     = role_list self k @ (if k = t then [x] else [])"
  by (simp add: role_list_def dict_setdefault_def update_conv' split: option.splits)

lemma dict_append_setdefault:
  "dict_append t x (dict_setdefault t (eltako self)) =
     Inr (AList.update t (role_list self t @ [x]) (dict_setdefault t (eltako self)))"
  by (simp add: dict_append_def dict_setdefault_def role_list_def update_conv' update_triv
      split: option.splits)

lemma add_device_step_ok:
  assumes "actuator_ok info"
  shows "\<exists>obj. add_device_step n dev info self i =
            Inr (self\<lparr>eltako := AList.update (info_type info) (role_list self (info_type info) @ [obj])
                   (dict_setdefault (info_type info) (eltako self))\<rparr>) \<and>
          obj_id obj = get_formatted_address (dev_address dev + i) \<and>
          (info_type info = ''cover'' \<longrightarrow>
             obj_device_class obj = Some ''shutter'' \<and> obj_time_closes obj = Some 24 \<and>
             obj_time_opens obj = Some 25)"
  using assms
  by (auto simp: add_device_step_def actuator_ok_def dict_append_setdefault Let_def
      split: option.splits)


lemma add_device_loop_ok:
  assumes ok: "actuator_ok info"
  shows "\<exists>self' objs. add_device_loop n dev info self is = Inr self' \<and>
          sener_id_list self' = sener_id_list self \<and>
          sender_address self' = sender_address self \<and>
          export_logger self' = export_logger self \<and>
          (\<forall>k. role_list self' k = role_list self k @ (if k = info_type info then objs else [])) \<and>
          map obj_id objs = map (\<lambda>i. get_formatted_address (dev_address dev + i)) is \<and>
          (info_type info = ''cover'' \<longrightarrow>
             (\<forall>obj \<in> set objs. obj_device_class obj = Some ''shutter'' \<and>
                obj_time_closes obj = Some 24 \<and> obj_time_opens obj = Some 25))"
proof (induction "is" arbitrary: self)
  case Nil
  show ?case by simp
next
  case (Cons i "is")
  let ?t = "info_type info"
  from add_device_step_ok [OF ok, of n dev self i]
  obtain obj where
    step: "add_device_step n dev info self i =
             Inr (self\<lparr>eltako := AList.update ?t (role_list self ?t @ [obj])
                    (dict_setdefault ?t (eltako self))\<rparr>)"
    and oid: "obj_id obj = get_formatted_address (dev_address dev + i)"
    and ocover: "?t = ''cover'' \<longrightarrow>
             obj_device_class obj = Some ''shutter'' \<and> obj_time_closes obj = Some 24 \<and>
             obj_time_opens obj = Some 25"
    by blast
  define self1 where
    "self1 = self\<lparr>eltako := AList.update ?t (role_list self ?t @ [obj])
                    (dict_setdefault ?t (eltako self))\<rparr>"
  have r1: "role_list self1 k = role_list self k @ (if k = ?t then [obj] else [])" for k
    unfolding self1_def by (rule role_list_push)
  from Cons.IH [of self1]
  obtain self' objs where
    loop: "add_device_loop n dev info self1 is = Inr self'"
    and f1: "sener_id_list self' = sener_id_list self1"
    and f2: "sender_address self' = sender_address self1"
    and f3: "export_logger self' = export_logger self1"
    and rl: "\<forall>k. role_list self' k = role_list self1 k @ (if k = ?t then objs else [])"
    and ids: "map obj_id objs = map (\<lambda>i. get_formatted_address (dev_address dev + i)) is"
    and cov: "?t = ''cover'' \<longrightarrow>
             (\<forall>obj \<in> set objs. obj_device_class obj = Some ''shutter'' \<and>
                obj_time_closes obj = Some 24 \<and> obj_time_opens obj = Some 25)"
    by blast
  have a: "add_device_loop n dev info self (i # is) = Inr self'"
    using step loop by (simp add: self1_def)
  have b: "\<forall>k. role_list self' k = role_list self k @ (if k = ?t then obj # objs else [])"
    using rl r1 by simp
  have c: "map obj_id (obj # objs) =
             map (\<lambda>i. get_formatted_address (dev_address dev + i)) (i # is)"
    using oid ids by simp
  have d: "?t = ''cover'' \<longrightarrow>
             (\<forall>o' \<in> set (obj # objs). obj_device_class o' = Some ''shutter'' \<and>
                obj_time_closes o' = Some 24 \<and> obj_time_opens o' = Some 25)"
    using ocover cov by simp
  have e: "sener_id_list self' = sener_id_list self" "sender_address self' = sender_address self"
    "export_logger self' = export_logger self"
    using f1 f2 f3 by (simp_all add: self1_def)
  show ?case
    using a b c d e by blast
qed


lemma EEP_MAPPING_address_count: "\<forall>info \<in> set EEP_MAPPING. 0 < address_count info"
  by (simp add: EEP_MAPPING_def mk_profile_def)

lemma find_device_info_in_table:
  "find_device_info name = Some info \<Longrightarrow> info \<in> set EEP_MAPPING"
  by (auto simp: find_device_info_def find_Some_iff)

lemma add_device_effect:
  assumes "find_device_info (class_name dev) = Some info"
  shows "\<exists>self' objs. add_device self dev = Inr self' \<and>
          sener_id_list self' = sener_id_list self \<and>
          sender_address self' = sender_address self \<and>
          export_logger self' = export_logger self \<and>
          (\<forall>k. role_list self' k = role_list self k @ (if k = info_type info then objs else [])) \<and>
          map obj_id objs =
            map (\<lambda>i. get_formatted_address (dev_address dev + i)) (py_range0 (address_count info)) \<and>
          (info_type info = ''cover'' \<longrightarrow>
             (\<forall>obj \<in> set objs. obj_device_class obj = Some ''shutter'' \<and>
                obj_time_closes obj = Some 24 \<and> obj_time_opens obj = Some 25))"
  using add_device_loop_ok [OF find_device_info_ok [OF assms],
      of "class_name dev" dev self "py_range0 (address_count info)"] assms
  by (simp add: add_device_def)

subsection \<open>The effect of \<open>add_sensor\<close>\<close>

lemma role_list_push_eltako:
  "eltako self' = AList.update t (role_list self t @ [x]) (dict_setdefault t (eltako self)) \<Longrightarrow>
   role_list self' k = role_list self k @ (if k = t then [x] else [])"
  by (simp add: role_list_def dict_setdefault_def update_conv' split: option.splits)

lemma add_sensor_effect:
  assumes "add_sensor parse self msg = Inr self'"
  shows "self' = self \<or>
         (\<exists>info obj. ORG_MAPPING (org msg) = Some info \<and>
            address msg \<notin> set (sener_id_list self) \<and>
            obj_id obj = sensor_address_str (address msg) \<and>
            self' = self\<lparr>eltako := AList.update (org_type info)
                               (role_list self (org_type info) @ [obj])
                               (dict_setdefault (org_type info) (eltako self)),
                          sener_id_list := sener_id_list self @ [address msg]\<rparr>)"
proof (cases "msg_class msg \<in> set SENSOR_MESSAGE_TYPES \<and> has_outgoing msg \<and>
    address msg \<notin> set (sener_id_list self)")
  case False
  with assms have "self' = self"
    by (auto simp: add_sensor_def split: if_splits)
  then show ?thesis by simp
next
  case True
  show ?thesis
  proof (cases "ORG_MAPPING (org msg)")
    case None
    with True assms show ?thesis by (simp add: add_sensor_def)
  next
    case (Some info)
    let ?addr = "sensor_address_str (address msg)"
    define obj0 where "obj0 =
       \<lparr>obj_id = ?addr, obj_eep = org_eep info, obj_name = org_name info @ '' '' @ ?addr,
        obj_sender = None, obj_device_class = None, obj_time_closes = None,
        obj_time_opens = None,
        obj_comment = Some (''Sensor Type: '' @ guess_sensor_type_by_address parse msg
           @ '', Derived from Msg Type: '' @ type_name (msg_class msg))\<rparr>"
    define obj where "obj =
       (if org_type info = ''binary_sensor''
        then obj0\<lparr>obj_device_class := Some ''window / door / smoke / motion / ?''\<rparr>
        else obj0)"
    have eq: "self' = self\<lparr>eltako := AList.update (org_type info)
                               (role_list self (org_type info) @ [obj])
                               (dict_setdefault (org_type info) (eltako self)),
                          sener_id_list := sener_id_list self @ [address msg]\<rparr>"
    proof -
      have "add_sensor parse self msg =
              Inr (self\<lparr>eltako := AList.update (org_type info)
                               (role_list self (org_type info) @ [obj])
                               (dict_setdefault (org_type info) (eltako self)),
                          sener_id_list := sener_id_list self @ [address msg]\<rparr>)"
        using True Some
        by (simp add: add_sensor_def Let_def dict_append_setdefault obj_def obj0_def)
      with assms show ?thesis by simp
    qed
    have oid: "obj_id obj = ?addr"
      by (simp add: obj_def obj0_def)
    from True have new: "address msg \<notin> set (sener_id_list self)" by simp
    from Some new oid eq show ?thesis by blast
  qed
qed

lemma add_sensor_frame:
  assumes "add_sensor parse self msg = Inr self'"
  shows "sender_address self' = sender_address self \<and> export_logger self' = export_logger self \<and>
         (\<exists>t objs. length objs \<le> 1 \<and>
            (\<forall>k. role_list self' k = role_list self k @ (if k = t then objs else [])))"
proof -
  from add_sensor_effect [OF assms] show ?thesis
  proof (elim disjE exE conjE)
    assume same: "self' = self"
    have "length ([] :: dev_obj list) \<le> 1 \<and>
          (\<forall>k. role_list self' k = role_list self k @ (if k = '''' then [] else []))"
      using same by simp
    then have "\<exists>t objs. length objs \<le> 1 \<and>
            (\<forall>k. role_list self' k = role_list self k @ (if k = t then objs else []))"
      by blast
    with same show ?thesis by simp
  next
    fix info obj
    assume new: "self' = self\<lparr>eltako := AList.update (org_type info)
                               (role_list self (org_type info) @ [obj])
                               (dict_setdefault (org_type info) (eltako self)),
                          sener_id_list := sener_id_list self @ [address msg]\<rparr>"
    have "\<forall>k. role_list self' k = role_list self k @ (if k = org_type info then [obj] else [])"
      using role_list_push_eltako [of self' "org_type info" self obj] new by simp
    then have "length [obj] \<le> 1 \<and>
        (\<forall>k. role_list self' k = role_list self k @ (if k = org_type info then [obj] else []))"
      by simp
    then have "\<exists>t objs. length objs \<le> 1 \<and>
            (\<forall>k. role_list self' k = role_list self k @ (if k = t then objs else []))"
      by blast
    with new show ?thesis by simp
  qed
qed

lemma add_device_frame:
  "\<exists>self' t objs. add_device self dev = Inr self' \<and>
      sener_id_list self' = sener_id_list self \<and>
      sender_address self' = sender_address self \<and>
      (\<forall>k. role_list self' k = role_list self k @ (if k = t then objs else []))"
proof (cases "find_device_info (class_name dev)")
  case None
  then have "add_device self dev = Inr self"
    by (simp add: add_device_def)
  then have "add_device self dev = Inr self \<and>
      sener_id_list self = sener_id_list self \<and>
      sender_address self = sender_address self \<and>
      (\<forall>k. role_list self k = role_list self k @ (if k = '''' then [] else []))"
    by simp
  then show ?thesis by blast
next
  case (Some info)
  from add_device_effect [OF Some, of self] show ?thesis by blast
qed

subsection \<open>Byte order and numeric order\<close>

lemma byte_bound: "unat (b :: byte) < 256"
  using unsigned_less [of b, where ?'a = nat] by simp

lemma list4:
  assumes "length xs = 4"
  obtains a b c d where "xs = [a, b, c, d]"
  using assms by (auto simp: length_Suc_conv numeral_eq_Suc)

lemma lex_as_number:
  fixes a b c d :: nat
  assumes "a < 256" "b < 256" "c < 256" "d < 256"
  shows "((0 < a \<or> 0 = a \<and> (0 < b \<or> 0 = b \<and> (16 < c \<or> 16 = c \<and> (1 < d \<or> 1 = d)))) \<and>
          (a < 0 \<or> a = 0 \<and> (b < 0 \<or> b = 0 \<and> (c < 20 \<or> c = 20 \<and> (d < 137 \<or> d = 137 )))))
         = (4097 \<le> 256 * (256 * (256 * a + b) + c) + d \<and>
            256 * (256 * (256 * a + b) + c) + d \<le> 5257)"
  using assms by auto

lemma address_range_numeric:
  assumes "length a = 4"
  shows "(bytes_le min_address a \<and> bytes_le a max_address) =
         (0x1001 \<le> be_nat a \<and> be_nat a \<le> 0x1489)"
proof -
  from assms obtain a0 a1 a2 a3 where a: "a = [a0, a1, a2, a3]" by (rule list4)
  have u: "unat (0 :: byte) = 0" "unat (16 :: byte) = 16" "unat (1 :: byte) = 1"
    "unat (20 :: byte) = 20" "unat (137 :: byte) = 137"
    by simp_all
  show ?thesis
    unfolding a min_address_def max_address_def be_nat_def
    using lex_as_number [OF byte_bound [of a0] byte_bound [of a1] byte_bound [of a2] byte_bound [of a3]]
    by (simp add: word_less_nat_alt word_unat_eq_iff u del: unsigned_numeral unsigned_0 unsigned_1)
qed

subsection \<open>Hexadecimal formatting\<close>

lemma char_upper_hex_digits:
  "list_all (\<lambda>d. char_upper (hex_digit d) = upper_hex_digit d) [0..<16]"
  by code_simp

lemma char_upper_hex_digit: "char_upper (hex_digit d) = upper_hex_digit (d mod 16)"
proof -
  have "d mod 16 \<in> set [0..<16]" by simp
  with char_upper_hex_digits
  have "char_upper (hex_digit (d mod 16)) = upper_hex_digit (d mod 16)"
    unfolding list_all_iff by blast
  then show ?thesis by (simp add: hex_digit_def)
qed

lemma upper_hex_digit_inj:
  assumes "d < 16" "e < 16" "upper_hex_digit d = upper_hex_digit e"
  shows "d = e"
proof -
  have dist: "distinct ''0123456789ABCDEF''" by simp
  have len: "length ''0123456789ABCDEF'' = 16" by simp
  from assms(3) have "''0123456789ABCDEF'' ! d = ''0123456789ABCDEF'' ! e"
    using assms(1,2) by (simp add: upper_hex_digit_def)
  with nth_eq_iff_index_eq [OF dist, of d e] assms(1,2) len show ?thesis
    by simp
qed

lemma upper_hex_digit_mem: "upper_hex_digit d \<in> set ''0123456789ABCDEF''"
proof -
  have "d mod 16 < length ''0123456789ABCDEF''" by simp
  then show ?thesis
    unfolding upper_hex_digit_def by (rule nth_mem)
qed

lemma length_fixed_hex [simp]: "length (fixed_hex k n) = k"
  by (induction k arbitrary: n) simp_all

lemma fixed_hex_zero: "fixed_hex k 0 = replicate k CHR ''0''"
  by (induction k) (simp_all add: hex_digit_def replicate_append_same)

lemma hex_nat_small: "n < 16 \<Longrightarrow> hex_nat n = [hex_digit n]"
  by (subst hex_nat.simps) simp

lemma hex_nat_big: "\<not> n < 16 \<Longrightarrow> hex_nat n = hex_nat (n div 16) @ [hex_digit (n mod 16)]"
  by (subst hex_nat.simps) simp

lemma hex_digit_mod: "hex_digit (n mod 16) = hex_digit n"
  by (simp add: hex_digit_def)

lemma zfill_snoc: "zfill (Suc k) (s @ [c]) = zfill k s @ [c]"
  by (simp add: zfill_def)

lemma zfill_hex_nat:
  "n < 16 ^ Suc k \<Longrightarrow>
   length (hex_nat n) \<le> Suc k \<and> zfill (Suc k) (hex_nat n) = fixed_hex (Suc k) n"
proof (induction k arbitrary: n)
  case 0
  then have "n < 16" by simp
  then show ?case
    by (simp add: hex_nat_small zfill_def hex_digit_mod)
next
  case (Suc k)
  show ?case
  proof (cases "n < 16")
    case True
    then have "n div 16 = 0" by simp
    with True show ?thesis
      by (simp add: hex_nat_small zfill_def hex_digit_mod fixed_hex_zero
          replicate_append_same)
  next
    case False
    from Suc.prems have "n div 16 < 16 ^ Suc k"
      by (simp add: less_mult_imp_div_less)
    from Suc.IH [OF this]
    have len: "length (hex_nat (n div 16)) \<le> Suc k"
      and eq: "zfill (Suc k) (hex_nat (n div 16)) = fixed_hex (Suc k) (n div 16)"
      by simp_all
    have h: "hex_nat n = hex_nat (n div 16) @ [hex_digit (n mod 16)]"
      using False by (rule hex_nat_big)
    have "zfill (Suc (Suc k)) (hex_nat n) =
            zfill (Suc k) (hex_nat (n div 16)) @ [hex_digit (n mod 16)]"
      unfolding h by (rule zfill_snoc)
    also have "\<dots> = fixed_hex (Suc (Suc k)) n"
      unfolding eq by simp
    finally have "zfill (Suc (Suc k)) (hex_nat n) = fixed_hex (Suc (Suc k)) n" .
    moreover have "length (hex_nat n) \<le> Suc (Suc k)"
      unfolding h using len by simp
    ultimately show ?thesis by (rule conjI [rotated])
  qed
qed

lemma upper_fixed_hex_inj:
  "n < 16 ^ k \<Longrightarrow> m < 16 ^ k \<Longrightarrow>
   map char_upper (fixed_hex k n) = map char_upper (fixed_hex k m) \<Longrightarrow> n = m"
proof (induction k arbitrary: n m)
  case 0
  then show ?case by simp
next
  case (Suc k)
  from Suc.prems(1) have n: "n div 16 < 16 ^ k" by (simp add: less_mult_imp_div_less)
  from Suc.prems(2) have m: "m div 16 < 16 ^ k" by (simp add: less_mult_imp_div_less)
  from Suc.prems(3)
  have a: "map char_upper (fixed_hex k (n div 16)) = map char_upper (fixed_hex k (m div 16))"
    and b: "char_upper (hex_digit (n mod 16)) = char_upper (hex_digit (m mod 16))"
    by simp_all
  from Suc.IH [OF n m a] have d: "n div 16 = m div 16" .
  from b have "upper_hex_digit (n mod 16) = upper_hex_digit (m mod 16)"
    by (simp add: char_upper_hex_digit)
  then have "n mod 16 = m mod 16"
    by (intro upper_hex_digit_inj) simp_all
  with d show ?case
    by (metis div_mult_mod_eq)
qed

lemma upper_fixed_hex_set:
  "set (map char_upper (fixed_hex k n)) \<subseteq> set ''0123456789ABCDEF''"
proof (induction k arbitrary: n)
  case 0
  show ?case by simp
next
  case (Suc k)
  have "upper_hex_digit (n mod 16 mod 16) \<in> set ''0123456789ABCDEF''"
    by (rule upper_hex_digit_mem)
  with Suc [of "n div 16"] show ?case
    by (simp add: char_upper_hex_digit)
qed

lemma format_08x_in_range:
  assumes "0 \<le> a" "a < 2 ^ 32"
  shows "format_08x a = fixed_hex 8 (nat a)"
proof -
  have "nat a < 16 ^ Suc 7" using assms by simp
  from zfill_hex_nat [OF this] have "zfill (Suc 7) (hex_nat (nat a)) = fixed_hex (Suc 7) (nat a)"
    by simp
  moreover have "Suc 7 = 8" by simp
  ultimately have "zfill 8 (hex_nat (nat a)) = fixed_hex 8 (nat a)" by simp
  with assms(1) show ?thesis by (simp add: format_08x_def)
qed

lemma list8:
  assumes "length xs = 8"
  obtains a b c d e f g h where "xs = [a, b, c, d, e, f, g, h]"
  using assms by (auto simp: length_Suc_conv numeral_eq_Suc)

lemma hyphenate_inj:
  assumes "length u = 8" "length v = 8" "hyphenate u = hyphenate v"
  shows "u = v"
proof -
  from assms(1) obtain a b c d e f g h where u: "u = [a, b, c, d, e, f, g, h]" by (rule list8)
  from assms(2) obtain a' b' c' d' e' f' g' h' where v: "v = [a', b', c', d', e', f', g', h']"
    by (rule list8)
  from assms(3) show ?thesis
    unfolding u v by (simp add: hyphenate_def str_slice_def)
qed

lemma get_formatted_address_hyphenate:
  "get_formatted_address a = hyphenate (str_upper (format_08x a))"
  by (simp add: get_formatted_address_def hyphenate_def Let_def)

subsection \<open>The address string of a sensor record\<close>

lemma hex_digit_mem: "hex_digit d \<in> set ''0123456789abcdef''"
proof -
  have "d mod 16 < length ''0123456789abcdef''" by simp
  then show ?thesis
    unfolding hex_digit_def by (rule nth_mem)
qed

lemma fixed_hex_set: "set (fixed_hex k n) \<subseteq> set ''0123456789abcdef''"
proof (induction k arbitrary: n)
  case 0
  show ?case by simp
next
  case (Suc k)
  from Suc [of "n div 16"] hex_digit_mem [of "n mod 16"] show ?case by simp
qed

lemma replace_fixed_hex:
  "str_replace_char CHR '' '' CHR ''-'' (fixed_hex k n) = fixed_hex k n"
proof -
  have "\<forall>c \<in> set (fixed_hex k n). (if c = CHR '' '' then CHR ''-'' else c) = c"
    using fixed_hex_set [of k n] by auto
  then show ?thesis
    unfolding str_replace_char_def by (simp add: map_idI)
qed

lemma byte_two_digits: "zfill 2 (hex_nat (unat (b :: byte))) = fixed_hex 2 (unat b)"
proof -
  have lt: "unat b < 16 ^ Suc (Suc 0)" using byte_bound [of b] by simp
  have "zfill (Suc (Suc 0)) (hex_nat (unat b)) = fixed_hex (Suc (Suc 0)) (unat b)"
    using zfill_hex_nat [OF lt] by (rule conjunct2)
  then show ?thesis by (simp only: numeral_2_eq_2)
qed

lemma char_upper_hyphen: "char_upper CHR ''-'' = CHR ''-''"
  by (simp add: char_upper_def)

lemma sensor_address_str_Nil: "sensor_address_str [] = []"
  by (simp add: sensor_address_str_def b2a_def str_upper_def str_replace_char_def)

lemma sensor_address_str_single:
  "sensor_address_str [x] = map char_upper (fixed_hex 2 (unat x))"
  using replace_fixed_hex [of 2 "unat x"]
  by (simp add: sensor_address_str_def b2a_def str_upper_def byte_two_digits)

lemma sensor_address_str_Cons:
  "sensor_address_str (x # y # ys) =
     map char_upper (fixed_hex 2 (unat x)) @ CHR ''-'' # sensor_address_str (y # ys)"
proof -
  have "str_replace_char CHR '' '' CHR ''-'' (u @ '' '' @ v) =
          str_replace_char CHR '' '' CHR ''-'' u @ ''-'' @ str_replace_char CHR '' '' CHR ''-'' v"
    for u v
    by (simp add: str_replace_char_def)
  then show ?thesis
    using replace_fixed_hex [of 2 "unat x"]
    by (simp add: sensor_address_str_def b2a_def str_upper_def byte_two_digits
        char_upper_hyphen)
qed

lemma upper_byte_inj:
  assumes "map char_upper (fixed_hex 2 (unat (x :: byte))) = map char_upper (fixed_hex 2 (unat y))"
  shows "x = y"
proof -
  have "unat x < 16 ^ 2" "unat y < 16 ^ 2"
    using byte_bound [of x] byte_bound [of y] by simp_all
  from upper_fixed_hex_inj [OF this assms] show ?thesis by (simp add: word_unat_eq_iff)
qed

lemma list012_cases:
  obtains (Nil) "ys = []" | (single) y where "ys = [y]" | (more) y z zs where "ys = y # z # zs"
proof (cases ys)
  case Nil
  then show ?thesis by (rule that(1))
next
  case (Cons y ys')
  then show ?thesis by (cases ys') (auto intro: that)
qed

lemma length_sensor_address_str_single: "length (sensor_address_str [x]) = 2"
  by (simp add: sensor_address_str_single)

lemma length_sensor_address_str_more: "2 < length (sensor_address_str (x # y # ys))"
  by (simp add: sensor_address_str_Cons)

lemma sensor_address_str_inj:
  "sensor_address_str xs = sensor_address_str ys \<Longrightarrow> xs = ys"
proof (induction xs arbitrary: ys rule: induct_list012)
  case 1
  show ?case
  proof (cases ys rule: list012_cases)
    case Nil
    then show ?thesis by simp
  next
    case (single y)
    with 1 length_sensor_address_str_single [of y] show ?thesis
      by (simp add: sensor_address_str_Nil)
  next
    case (more y z zs)
    with 1 length_sensor_address_str_more [of y z zs] show ?thesis
      by (simp add: sensor_address_str_Nil)
  qed
next
  case (2 x)
  show ?case
  proof (cases ys rule: list012_cases)
    case Nil
    with 2 length_sensor_address_str_single [of x] show ?thesis
      by (simp add: sensor_address_str_Nil)
  next
    case (single y)
    with 2 have "map char_upper (fixed_hex 2 (unat x)) = map char_upper (fixed_hex 2 (unat y))"
      by (simp add: sensor_address_str_single)
    then have "x = y" by (rule upper_byte_inj)
    with single show ?thesis by simp
  next
    case (more y z zs)
    with 2 length_sensor_address_str_single [of x] length_sensor_address_str_more [of y z zs]
    show ?thesis by simp
  qed
next
  case (3 x x' xs)
  show ?case
  proof (cases ys rule: list012_cases)
    case Nil
    with 3(3) length_sensor_address_str_more [of x x' xs] show ?thesis
      by (simp add: sensor_address_str_Nil)
  next
    case (single y)
    with 3(3) length_sensor_address_str_single [of y] length_sensor_address_str_more [of x x' xs]
    show ?thesis by simp
  next
    case (more y z zs)
    from 3(3) have "map char_upper (fixed_hex 2 (unat x)) @ CHR ''-'' # sensor_address_str (x' # xs) =
        map char_upper (fixed_hex 2 (unat y)) @ CHR ''-'' # sensor_address_str (z # zs)"
      unfolding more by (simp only: sensor_address_str_Cons)
    then have a: "map char_upper (fixed_hex 2 (unat x)) = map char_upper (fixed_hex 2 (unat y))"
      and b: "sensor_address_str (x' # xs) = sensor_address_str (z # zs)"
      by simp_all
    from a have "x = y" by (rule upper_byte_inj)
    moreover from 3(2) [OF b] have "x' # xs = z # zs" .
    ultimately show ?thesis unfolding more by simp
  qed
qed

subsection \<open>Deduplication of sensors\<close>

lemma mset_concat_push:
  "mset (concat (map snd (AList.update t
       ((case map_of d t of None \<Rightarrow> [] | Some l \<Rightarrow> l) @ [x]) (dict_setdefault t d)))) =
     add_mset x (mset (concat (map snd d)))"
  by (induction d) (auto simp: dict_setdefault_def split: option.splits)

lemma all_records_push:
  assumes "eltako s' = AList.update t (role_list s t @ [x]) (dict_setdefault t (eltako s))"
  shows "mset (all_records s') = add_mset x (mset (all_records s))"
  unfolding all_records_def assms role_list_def by (rule mset_concat_push)

lemma add_sensor_stale:
  "address m \<in> set (sener_id_list s) \<Longrightarrow> add_sensor parse s m = Inr s"
  by (simp add: add_sensor_def)

lemma add_sensor_new:
  assumes "live_sensor_telegram m" and "address m \<notin> set (sener_id_list s)"
  shows "\<exists>s' obj. add_sensor parse s m = Inr s' \<and>
           sener_id_list s' = sener_id_list s @ [address m] \<and>
           mset (all_records s') = add_mset obj (mset (all_records s)) \<and>
           obj_id obj = sensor_address_str (address m)"
proof -
  from assms(1) obtain info where info: "ORG_MAPPING (org m) = Some info"
    by (auto simp: live_sensor_telegram_def ORG_MAPPING_def)
  from assms have "\<exists>s'. add_sensor parse s m = Inr s'"
    by (simp add: live_sensor_telegram_def add_sensor_def info Let_def dict_append_setdefault)
  then obtain s' where s': "add_sensor parse s m = Inr s'" ..
  from add_sensor_effect [OF s'] show ?thesis
  proof (elim disjE exE conjE)
    assume same: "s' = s"
    from s' assms info have "sener_id_list s' = sener_id_list s @ [address m]"
      by (auto simp: live_sensor_telegram_def add_sensor_def Let_def dict_append_setdefault)
    with same have False by simp
    then show ?thesis ..
  next
    fix info' :: org_info and obj
    assume oid: "obj_id obj = sensor_address_str (address m)"
      and eq: "s' = s\<lparr>eltako := AList.update (org_type info')
                               (role_list s (org_type info') @ [obj])
                               (dict_setdefault (org_type info') (eltako s)),
                          sener_id_list := sener_id_list s @ [address m]\<rparr>"
    from eq have a: "sener_id_list s' = sener_id_list s @ [address m]" by simp
    from eq have "eltako s' = AList.update (org_type info')
                               (role_list s (org_type info') @ [obj])
                               (dict_setdefault (org_type info') (eltako s))" by simp
    then have b: "mset (all_records s') = add_mset obj (mset (all_records s))"
      by (rule all_records_push)
    from s' a b oid show ?thesis by blast
  qed
qed


lemma add_sensor_inv:
  assumes "add_sensor parse s m = Inr s'"
    and "distinct (sener_id_list s)"
    and "mset (map obj_id (all_records s)) = mset (map sensor_address_str (sener_id_list s))"
  shows "distinct (sener_id_list s') \<and>
         mset (map obj_id (all_records s')) = mset (map sensor_address_str (sener_id_list s'))"
  using add_sensor_effect [OF assms(1)]
proof (elim disjE exE conjE)
  assume "s' = s"
  with assms(2,3) show ?thesis by simp
next
  fix info :: org_info and obj
  assume new: "address m \<notin> set (sener_id_list s)"
    and oid: "obj_id obj = sensor_address_str (address m)"
    and eq: "s' = s\<lparr>eltako := AList.update (org_type info)
                               (role_list s (org_type info) @ [obj])
                               (dict_setdefault (org_type info) (eltako s)),
                          sener_id_list := sener_id_list s @ [address m]\<rparr>"
  from eq have a: "sener_id_list s' = sener_id_list s @ [address m]" by simp
  from eq have "eltako s' = AList.update (org_type info)
                               (role_list s (org_type info) @ [obj])
                               (dict_setdefault (org_type info) (eltako s))" by simp
  then have b: "mset (all_records s') = add_mset obj (mset (all_records s))"
    by (rule all_records_push)
  have "mset (map obj_id (all_records s')) = image_mset obj_id (mset (all_records s'))"
    by simp
  also have "\<dots> = add_mset (obj_id obj) (image_mset obj_id (mset (all_records s)))"
    unfolding b by simp
  also have "\<dots> = add_mset (sensor_address_str (address m))
                      (mset (map sensor_address_str (sener_id_list s)))"
    using assms(3) oid by simp
  also have "\<dots> = mset (map sensor_address_str (sener_id_list s'))"
    unfolding a by simp
  finally have c: "mset (map obj_id (all_records s')) =
                     mset (map sensor_address_str (sener_id_list s'))" .
  from assms(2) new have "distinct (sener_id_list s')" unfolding a by simp
  with c show ?thesis by simp
qed

lemma add_sensors_inv:
  assumes "add_sensors parse s ms = Inr s'"
    and "distinct (sener_id_list s)"
    and "mset (map obj_id (all_records s)) = mset (map sensor_address_str (sener_id_list s))"
  shows "distinct (sener_id_list s') \<and>
         mset (map obj_id (all_records s')) = mset (map sensor_address_str (sener_id_list s'))"
  using assms
proof (induction ms arbitrary: s)
  case Nil
  then show ?case by simp
next
  case (Cons m ms)
  from Cons.prems(1) obtain s1 where
    s1: "add_sensor parse s m = Inr s1" and rest: "add_sensors parse s1 ms = Inr s'"
    by (auto split: sum.splits)
  from add_sensor_inv [OF s1 Cons.prems(2,3)]
  have "distinct (sener_id_list s1)"
    and "mset (map obj_id (all_records s1)) = mset (map sensor_address_str (sener_id_list s1))"
    by simp_all
  with rest show ?case by (rule Cons.IH)
qed

lemma distinct_ids_of_inv:
  assumes "distinct (sener_id_list s)"
    and "mset (map obj_id (all_records s)) = mset (map sensor_address_str (sener_id_list s))"
  shows "distinct (map obj_id (all_records s)) \<and>
         length (all_records s) = length (sener_id_list s)"
proof -
  have "inj_on sensor_address_str (set (sener_id_list s))"
    by (rule inj_onI) (rule sensor_address_str_inj)
  with assms(1) have "distinct (map sensor_address_str (sener_id_list s))"
    by (simp add: distinct_map)
  with assms(2) have d: "distinct (map obj_id (all_records s))"
    by (metis mset_eq_imp_distinct_iff)
  from assms(2) have "size (mset (map obj_id (all_records s))) =
      size (mset (map sensor_address_str (sener_id_list s)))" by simp
  then have "length (all_records s) = length (sener_id_list s)" by simp
  with d show ?thesis by simp
qed

lemma init_inv:
  "distinct (sener_id_list (HaConfig_init d l)) \<and>
   mset (map obj_id (all_records (HaConfig_init d l))) =
     mset (map sensor_address_str (sener_id_list (HaConfig_init d l)))"
  by (simp add: HaConfig_init_def all_records_def)

lemma add_sensor_twice_same:
  assumes "live_sensor_telegram m1" and "address m1 = address m2"
  shows "\<exists>s2. add_sensors parse (HaConfig_init d l) [m1, m2] = Inr s2 \<and>
           length (all_records s2) = 1"
proof -
  let ?s0 = "HaConfig_init d l"
  have fresh: "address m1 \<notin> set (sener_id_list ?s0)" by (simp add: HaConfig_init_def)
  from add_sensor_new [OF assms(1) fresh, of parse]
  obtain s1 obj where s1: "add_sensor parse ?s0 m1 = Inr s1"
    and ids: "sener_id_list s1 = sener_id_list ?s0 @ [address m1]"
    and recs: "mset (all_records s1) = add_mset obj (mset (all_records ?s0))"
    by blast
  from ids assms(2) have "address m2 \<in> set (sener_id_list s1)" by simp
  then have s2: "add_sensor parse s1 m2 = Inr s1" by (rule add_sensor_stale)
  from recs have "size (mset (all_records s1)) = Suc (size (mset (all_records ?s0)))"
    by simp
  then have "length (all_records s1) = 1"
    by (simp add: HaConfig_init_def all_records_def)
  moreover have "add_sensors parse ?s0 [m1, m2] = Inr s1"
    using s1 s2 by simp
  ultimately show ?thesis by blast
qed

lemma add_sensor_twice_different:
  assumes "live_sensor_telegram m1" and "live_sensor_telegram m2"
    and "address m1 \<noteq> address m2"
  shows "\<exists>s2. add_sensors parse (HaConfig_init d l) [m1, m2] = Inr s2 \<and>
           length (all_records s2) = 2"
proof -
  let ?s0 = "HaConfig_init d l"
  have fresh: "address m1 \<notin> set (sener_id_list ?s0)" by (simp add: HaConfig_init_def)
  from add_sensor_new [OF assms(1) fresh, of parse]
  obtain s1 obj where s1: "add_sensor parse ?s0 m1 = Inr s1"
    and ids: "sener_id_list s1 = sener_id_list ?s0 @ [address m1]"
    and recs: "mset (all_records s1) = add_mset obj (mset (all_records ?s0))"
    by blast
  from ids assms(3) have fresh2: "address m2 \<notin> set (sener_id_list s1)"
    by (simp add: HaConfig_init_def)
  from add_sensor_new [OF assms(2) fresh2, of parse]
  obtain s2 obj2 where s2: "add_sensor parse s1 m2 = Inr s2"
    and recs2: "mset (all_records s2) = add_mset obj2 (mset (all_records s1))"
    by blast
  from recs recs2 have "size (mset (all_records s2)) = Suc (Suc (size (mset (all_records ?s0))))"
    by simp
  then have "length (all_records s2) = 2"
    by (simp add: HaConfig_init_def all_records_def)
  moreover have "add_sensors parse ?s0 [m1, m2] = Inr s2"
    using s1 s2 by simp
  ultimately show ?thesis by blast
qed

lemma add_sensor_live_returns:
  assumes "live_sensor_telegram m"
  shows "\<exists>s'. add_sensor parse s m = Inr s'"
proof (cases "address m \<in> set (sener_id_list s)")
  case True
  then have "add_sensor parse s m = Inr s" by (rule add_sensor_stale)
  then show ?thesis ..
next
  case False
  from add_sensor_new [OF assms False, of parse] show ?thesis by blast
qed

lemma add_sensors_live_returns:
  "list_all live_sensor_telegram ms \<Longrightarrow> \<exists>s'. add_sensors parse s ms = Inr s'"
proof (induction ms arbitrary: s)
  case Nil
  show ?case by simp
next
  case (Cons m ms)
  from Cons.prems have "live_sensor_telegram m" and rest: "list_all live_sensor_telegram ms"
    by simp_all
  from add_sensor_live_returns [OF this(1), of parse s]
  obtain s1 where s1: "add_sensor parse s m = Inr s1" ..
  from Cons.IH [OF rest, of s1] obtain s' where "add_sensors parse s1 ms = Inr s'" ..
  with s1 have "add_sensors parse s (m # ms) = Inr s'" by simp
  then show ?case ..
qed

subsection \<open>The claims\<close>

text \<open>
  C1. When the class name of a bus object has the profile \<open>info\<close> in \<open>EEP_MAPPING\<close>,
  \<open>add_device\<close> returns and appends to the list of the profile's role exactly
  \<open>address_count info\<close> records; their ids are, in order, the addresses
  \<open>base, base + 1, \<dots>\<close>, each formatted on its own by \<open>get_formatted_address\<close>.
\<close>

theorem add_device_address_span:
  assumes "find_device_info (class_name dev) = Some info"
  shows "\<exists>self' objs. add_device self dev = Inr self' \<and>
          role_list self' (info_type info) = role_list self (info_type info) @ objs \<and>
          length objs = nat (address_count info) \<and>
          map obj_id objs =
            map (\<lambda>i. get_formatted_address (dev_address dev + int i))
              [0..<nat (address_count info)]"
proof -
  from add_device_effect [OF assms, of self]
  obtain self' objs where
    a: "add_device self dev = Inr self'"
    and rl: "\<forall>k. role_list self' k = role_list self k @ (if k = info_type info then objs else [])"
    and ids: "map obj_id objs =
            map (\<lambda>i. get_formatted_address (dev_address dev + i)) (py_range0 (address_count info))"
    by blast
  have ids': "map obj_id objs =
            map (\<lambda>i. get_formatted_address (dev_address dev + int i))
              [0..<nat (address_count info)]"
    using ids by (simp add: py_range0_def comp_def)
  have "length (map obj_id objs) = nat (address_count info)"
    unfolding ids' by simp
  then have len: "length objs = nat (address_count info)" by simp
  from rl have "role_list self' (info_type info) = role_list self (info_type info) @ objs"
    by simp
  with a len ids' show ?thesis by blast
qed

theorem add_device_address_span_witness:
  "find_device_info (class_name \<lparr>class_name = ''FSR14_4x'', dev_address = 0x10\<rparr>) =
     Some (mk_profile ''FSR14_4x'' ''M5-38-08'' (Some ''A5-38-08'') ''light'' ''Eltako relay'' 4) \<and>
   (\<exists>self' objs.
      add_device (HaConfig_init 0x200 False) \<lparr>class_name = ''FSR14_4x'', dev_address = 0x10\<rparr> =
        Inr self' \<and>
      role_list self' ''light'' = objs \<and> length objs = 4 \<and>
      map obj_id objs = [''00-00-00-10'', ''00-00-00-11'', ''00-00-00-12'', ''00-00-00-13''])"
proof -
  let ?d = "\<lparr>class_name = ''FSR14_4x'', dev_address = 0x10\<rparr>"
  let ?p = "mk_profile ''FSR14_4x'' ''M5-38-08'' (Some ''A5-38-08'') ''light'' ''Eltako relay'' 4"
  have h: "find_device_info (class_name ?d) = Some ?p"
    by (simp add: find_device_info_def EEP_MAPPING_def mk_profile_def)
  have g: "map (\<lambda>i. get_formatted_address (dev_address ?d + int i)) [0..<nat (address_count ?p)]
      = [''00-00-00-10'', ''00-00-00-11'', ''00-00-00-12'', ''00-00-00-13'']"
    by code_simp
  have r: "role_list (HaConfig_init 0x200 False) (info_type ?p) = []"
    by (simp add: role_list_def HaConfig_init_def)
  have t: "info_type ?p = ''light''" "nat (address_count ?p) = 4"
    by (simp_all add: mk_profile_def)
  from add_device_address_span [OF h, of "HaConfig_init 0x200 False"]
  obtain self' objs where
    a: "add_device (HaConfig_init 0x200 False) ?d = Inr self'"
    and b: "role_list self' (info_type ?p) =
              role_list (HaConfig_init 0x200 False) (info_type ?p) @ objs"
    and c: "length objs = nat (address_count ?p)"
    and d: "map obj_id objs =
              map (\<lambda>i. get_formatted_address (dev_address ?d + int i))
                [0..<nat (address_count ?p)]"
    by blast
  from b have b': "role_list self' ''light'' = objs"
    unfolding r unfolding t by simp
  from c have c': "length objs = 4"
    unfolding t .
  from d have d': "map obj_id objs =
      [''00-00-00-10'', ''00-00-00-11'', ''00-00-00-12'', ''00-00-00-13'']"
    unfolding g .
  show ?thesis
    by (intro conjI exI) (rule h a b' c' d')+
qed

text \<open>
  C4. The hardware unit of class \<open>FSR14_x2\<close> at base address \<open>0x100\<close>, added to a
  fresh accumulator whose default sender address is \<open>0x200\<close>, gives exactly two records
  under the role \<open>light\<close>: the first with id \<open>00-00-01-00\<close> (the formatted \<open>0x100\<close>),
  eep \<open>M5-38-08\<close> and the sender \<open>00-00-03-00\<close> (the formatted \<open>0x300\<close>) with eep
  \<open>A5-38-08\<close>, the second with both addresses one higher. Nothing else changes.
\<close>

theorem add_device_FSR14_x2_example:
  "add_device (HaConfig_init 0x200 False) \<lparr>class_name = ''FSR14_x2'', dev_address = 0x100\<rparr> =
     Inr \<lparr>eltako =
            [(''light'',
              [\<lparr>obj_id = ''00-00-01-00'', obj_eep = ''M5-38-08'',
                obj_name = ''FSR14_x2 - 256'',
                obj_sender = Some \<lparr>sender_id = ''00-00-03-00'', sender_eep = ''A5-38-08''\<rparr>,
                obj_device_class = None, obj_time_closes = None, obj_time_opens = None,
                obj_comment = None\<rparr>,
               \<lparr>obj_id = ''00-00-01-01'', obj_eep = ''M5-38-08'',
                obj_name = ''FSR14_x2 - 257'',
                obj_sender = Some \<lparr>sender_id = ''00-00-03-01'', sender_eep = ''A5-38-08''\<rparr>,
                obj_device_class = None, obj_time_closes = None, obj_time_opens = None,
                obj_comment = None\<rparr>])],
          sener_id_list = [], sender_address = 0x200, export_logger = False\<rparr>"
  by code_simp

text \<open>
  C6. A telegram that has no attribute \<open>outgoing\<close> leaves the accumulator as it is and
  adds no record, whatever its class, address and organization code.
\<close>

theorem add_sensor_without_marker:
  "\<not> has_outgoing msg \<Longrightarrow> add_sensor parse self msg = Inr self"
  by (simp add: add_sensor_def)

theorem add_sensor_without_marker_witness:
  "\<not> has_outgoing \<lparr>msg_class = RPSMessage, has_outgoing = False, org = 5,
        address = [0xFF, 0xDB, 0x00, 0x01], body = []\<rparr> \<and>
   add_sensor (\<lambda>d. None) (HaConfig_init 0x200 False)
     \<lparr>msg_class = RPSMessage, has_outgoing = False, org = 5,
      address = [0xFF, 0xDB, 0x00, 0x01], body = []\<rparr> = Inr (HaConfig_init 0x200 False)"
  using add_sensor_without_marker
    [of "\<lparr>msg_class = RPSMessage, has_outgoing = False, org = 5,
          address = [0xFF, 0xDB, 0x00, 0x01], body = []\<rparr>"
        "\<lambda>d. None" "HaConfig_init 0x200 False"]
  by simp

text \<open>
  C7. A bus object whose class name has no entry in \<open>EEP_MAPPING\<close> adds no record, does
  not raise, and leaves the accumulator as it is.
\<close>

theorem add_device_unknown_type:
  "find_device_info (class_name device) = None \<Longrightarrow> add_device self device = Inr self"
  by (simp add: add_device_def)

theorem add_device_unknown_type_witness:
  "find_device_info (class_name \<lparr>class_name = ''FAM14'', dev_address = 1\<rparr>) = None \<and>
   add_device (HaConfig_init 0x200 False) \<lparr>class_name = ''FAM14'', dev_address = 1\<rparr> =
     Inr (HaConfig_init 0x200 False)"
proof -
  have h: "find_device_info (class_name \<lparr>class_name = ''FAM14'', dev_address = 1\<rparr>) = None"
    by (simp add: find_device_info_def EEP_MAPPING_def mk_profile_def)
  show ?thesis
    using h add_device_unknown_type [OF h, of "HaConfig_init 0x200 False"] by simp
qed




text \<open>
  C8. When the profile found for a bus object has the role \<open>cover\<close>, every record that
  \<open>add_device\<close> appends (there is at least one) has \<open>device_class = shutter\<close>,
  \<open>time_closes = 24\<close> and \<open>time_opens = 25\<close>, for every base address and accumulator.
\<close>

theorem add_device_cover_record:
  assumes "find_device_info (class_name dev) = Some info" and "info_type info = ''cover''"
  shows "\<exists>self' objs. add_device self dev = Inr self' \<and>
          role_list self' ''cover'' = role_list self ''cover'' @ objs \<and> objs \<noteq> [] \<and>
          (\<forall>obj \<in> set objs. obj_device_class obj = Some ''shutter'' \<and>
             obj_time_closes obj = Some 24 \<and> obj_time_opens obj = Some 25)"
proof -
  from add_device_effect [OF assms(1), of self]
  obtain self' objs where
    a: "add_device self dev = Inr self'"
    and rl: "\<forall>k. role_list self' k = role_list self k @ (if k = info_type info then objs else [])"
    and ids: "map obj_id objs =
            map (\<lambda>i. get_formatted_address (dev_address dev + i)) (py_range0 (address_count info))"
    and cov: "info_type info = ''cover'' \<longrightarrow>
             (\<forall>obj \<in> set objs. obj_device_class obj = Some ''shutter'' \<and>
                obj_time_closes obj = Some 24 \<and> obj_time_opens obj = Some 25)"
    by blast
  have "0 < address_count info"
    using EEP_MAPPING_address_count find_device_info_in_table [OF assms(1)] by blast
  then have "py_range0 (address_count info) \<noteq> []"
    by (simp add: py_range0_def)
  then have "map obj_id objs \<noteq> []" unfolding ids by simp
  then have ne: "objs \<noteq> []" by simp
  from rl assms(2) have "role_list self' ''cover'' = role_list self ''cover'' @ objs"
    by simp
  with a ne cov assms(2) show ?thesis by blast
qed

theorem add_device_cover_record_witness:
  "find_device_info (class_name \<lparr>class_name = ''FSB14'', dev_address = 7\<rparr>) =
     Some (mk_profile ''FSB14'' ''G5-3F-7F'' (Some ''H5-3F-7F'') ''cover'' ''Eltako cover'' 1) \<and>
   info_type (mk_profile ''FSB14'' ''G5-3F-7F'' (Some ''H5-3F-7F'') ''cover'' ''Eltako cover'' 1)
     = ''cover'' \<and>
   (\<exists>self' objs.
      add_device (HaConfig_init 0x200 False) \<lparr>class_name = ''FSB14'', dev_address = 7\<rparr> =
        Inr self' \<and>
      role_list self' ''cover'' = objs \<and> objs \<noteq> [] \<and>
      (\<forall>obj \<in> set objs. obj_device_class obj = Some ''shutter'' \<and>
         obj_time_closes obj = Some 24 \<and> obj_time_opens obj = Some 25))"
proof -
  let ?d = "\<lparr>class_name = ''FSB14'', dev_address = 7\<rparr>"
  let ?p = "mk_profile ''FSB14'' ''G5-3F-7F'' (Some ''H5-3F-7F'') ''cover'' ''Eltako cover'' 1"
  have h: "find_device_info (class_name ?d) = Some ?p"
    by (simp add: find_device_info_def EEP_MAPPING_def mk_profile_def)
  have t: "info_type ?p = ''cover''"
    by (simp add: mk_profile_def)
  have r: "role_list (HaConfig_init 0x200 False) ''cover'' = []"
    by (simp add: role_list_def HaConfig_init_def)
  from add_device_cover_record [OF h t, of "HaConfig_init 0x200 False"]
  obtain self' objs where
    a: "add_device (HaConfig_init 0x200 False) ?d = Inr self'"
    and b: "role_list self' ''cover'' = role_list (HaConfig_init 0x200 False) ''cover'' @ objs"
    and c: "objs \<noteq> []"
    and d: "\<forall>obj \<in> set objs. obj_device_class obj = Some ''shutter'' \<and>
         obj_time_closes obj = Some 24 \<and> obj_time_opens obj = Some 25"
    by blast
  from b have b': "role_list self' ''cover'' = objs"
    unfolding r by simp
  show ?thesis
    by (intro conjI exI) (rule h t a b' c d)+
qed

text \<open>
  C10. \<open>add_device\<close> always returns, and leaves \<open>sener_id_list\<close> and the default sender
  address as they were; a call of \<open>add_sensor\<close> that returns leaves the default sender
  address as it was and appends at most one record. Either operation extends the list of
  at most one role \<open>t\<close>; the list of every other role is unchanged.
\<close>

theorem frame_of_add_device_and_add_sensor:
  "(\<exists>self' t objs. add_device self dev = Inr self' \<and>
      sener_id_list self' = sener_id_list self \<and>
      sender_address self' = sender_address self \<and>
      (\<forall>k. role_list self' k = role_list self k @ (if k = t then objs else []))) \<and>
   (\<forall>self'. add_sensor parse self msg = Inr self' \<longrightarrow>
      sender_address self' = sender_address self \<and>
      (\<exists>t objs. length objs \<le> 1 \<and>
         (\<forall>k. role_list self' k = role_list self k @ (if k = t then objs else []))))"
  using add_device_frame [of self dev] add_sensor_frame [of parse self msg] by blast


theorem frame_of_add_device_and_add_sensor_witness:
  "(let s0 = HaConfig_init 0x200 False;
        m0 = \<lparr>msg_class = RPSMessage, has_outgoing = True, org = 5,
              address = [0xFF, 0xDB, 0x00, 0x01], body = []\<rparr>;
        s2 = \<lparr>eltako =
                [(''binary_sensor'',
                  [\<lparr>obj_id = ''FF-DB-00-01'', obj_eep = ''F6-02-01'',
                    obj_name = ''Switch FF-DB-00-01'', obj_sender = None,
                    obj_device_class = Some ''window / door / smoke / motion / ?'',
                    obj_time_closes = None, obj_time_opens = None,
                    obj_comment = Some
                      ''Sensor Type: Wall Switch /Rocker Switch, Derived from Msg Type: RPSMessage''\<rparr>])],
              sener_id_list = [[0xFF, 0xDB, 0x00, 0x01]], sender_address = 0x200,
              export_logger = False\<rparr>
    in add_sensor (\<lambda>d. None) s0 m0 = Inr s2 \<and>
       sender_address s2 = sender_address s0 \<and>
       (\<exists>t objs. length objs \<le> 1 \<and>
          (\<forall>k. role_list s2 k = role_list s0 k @ (if k = t then objs else []))))"
proof -
  define s0 where "s0 = HaConfig_init 0x200 False"
  define m0 where "m0 = \<lparr>msg_class = RPSMessage, has_outgoing = True, org = 5,
              address = [0xFF, 0xDB, 0x00, 0x01], body = []\<rparr>"
  define s2 where "s2 = \<lparr>eltako =
                [(''binary_sensor'',
                  [\<lparr>obj_id = ''FF-DB-00-01'', obj_eep = ''F6-02-01'',
                    obj_name = ''Switch FF-DB-00-01'', obj_sender = None,
                    obj_device_class = Some ''window / door / smoke / motion / ?'',
                    obj_time_closes = None, obj_time_opens = None,
                    obj_comment = Some
                      ''Sensor Type: Wall Switch /Rocker Switch, Derived from Msg Type: RPSMessage''\<rparr>])],
              sener_id_list = [[0xFF, 0xDB, 0x00, 0x01]], sender_address = 0x200,
              export_logger = False\<rparr>"
  have h: "add_sensor (\<lambda>d. None) s0 m0 = Inr s2"
    unfolding s0_def m0_def s2_def by code_simp
  have all: "\<forall>self'. add_sensor (\<lambda>d. None) s0 m0 = Inr self' \<longrightarrow>
      sender_address self' = sender_address s0 \<and>
      (\<exists>t objs. length objs \<le> 1 \<and>
         (\<forall>k. role_list self' k = role_list s0 k @ (if k = t then objs else [])))"
    using frame_of_add_device_and_add_sensor
      [of s0 "\<lparr>class_name = ''FSR14_x2'', dev_address = 0x100\<rparr>" "\<lambda>d. None" m0]
    by (rule conjunct2)
  have "sender_address s2 = sender_address s0 \<and>
      (\<exists>t objs. length objs \<le> 1 \<and>
         (\<forall>k. role_list s2 k = role_list s0 k @ (if k = t then objs else [])))"
    by (rule mp [OF spec [OF all, of s2] h])
  with h show ?thesis
    unfolding Let_def s0_def m0_def s2_def by (rule conjI)
qed

text \<open>
  C5. For a telegram of class \<open>Regular1BSMessage\<close> whose reinterpretation succeeds and
  gives a telegram \<open>m\<close> with a 4-byte address, the classifier returns the label
  \<open>FTS14EM switch\<close> exactly when the address of \<open>m\<close>, read as a number, lies between
  \<open>0x00001001\<close> and \<open>0x00001489\<close> inclusive; outside that range it returns the label
  for "unknown", which the code writes \<open>???\<close>.
\<close>

theorem guess_1bs_address_range:
  assumes "msg_class msg = Regular1BSMessage"
    and "reinterpret parse msg = Some m"
    and "length (address m) = 4"
  shows "(guess_sensor_type_by_address parse msg = ''FTS14EM switch'') =
           (0x1001 \<le> be_nat (address m) \<and> be_nat (address m) \<le> 0x1489) \<and>
         (\<not> (0x1001 \<le> be_nat (address m) \<and> be_nat (address m) \<le> 0x1489) \<longrightarrow>
            guess_sensor_type_by_address parse msg = ''???'')"
proof -
  have g: "guess_sensor_type_by_address parse msg =
      (if bytes_le min_address (address m) \<and> bytes_le (address m) max_address
       then ''FTS14EM switch'' else ''???'')"
    using assms(1,2) by (simp add: guess_sensor_type_by_address_def)
  show ?thesis
    unfolding g address_range_numeric [OF assms(3)] by simp
qed

theorem guess_1bs_address_range_witness:
  "(let parse0 = (\<lambda>d. if take 2 d = [0xa5, 0x5a]
                      then Some \<lparr>msg_class = Regular1BSMessage, has_outgoing = False, org = 6,
                             address = take 4 (drop 8 d), body = take 11 (drop 2 d)\<rparr>
                      else None);
        m1 = \<lparr>msg_class = Regular1BSMessage, has_outgoing = True, org = 6,
              address = [0x00, 0x00, 0x10, 0x05],
              body = [0x0b, 0x06, 0x09, 0x00, 0x00, 0x00, 0x00, 0x00, 0x10, 0x05, 0x00]\<rparr>;
        m2 = \<lparr>msg_class = Regular1BSMessage, has_outgoing = True, org = 6,
              address = [0x01, 0x94, 0xE3, 0xB9],
              body = [0x0b, 0x06, 0x09, 0x00, 0x00, 0x00, 0x01, 0x94, 0xE3, 0xB9, 0x00]\<rparr>
    in msg_class m1 = Regular1BSMessage \<and>
       reinterpret parse0 m1 = Some (m1\<lparr>has_outgoing := False\<rparr>) \<and>
       length (address (m1\<lparr>has_outgoing := False\<rparr>)) = 4 \<and>
       be_nat (address (m1\<lparr>has_outgoing := False\<rparr>)) = 0x1005 \<and>
       guess_sensor_type_by_address parse0 m1 = ''FTS14EM switch'' \<and>
       msg_class m2 = Regular1BSMessage \<and>
       reinterpret parse0 m2 = Some (m2\<lparr>has_outgoing := False\<rparr>) \<and>
       length (address (m2\<lparr>has_outgoing := False\<rparr>)) = 4 \<and>
       be_nat (address (m2\<lparr>has_outgoing := False\<rparr>)) = 0x0194E3B9 \<and>
       guess_sensor_type_by_address parse0 m2 = ''???'')"
proof -
  define parse0 :: "byte list \<Rightarrow> telegram option" where
    "parse0 = (\<lambda>d. if take 2 d = [0xa5, 0x5a]
                      then Some \<lparr>msg_class = Regular1BSMessage, has_outgoing = False, org = 6,
                             address = take 4 (drop 8 d), body = take 11 (drop 2 d)\<rparr>
                      else None)"
  define m1 where "m1 = \<lparr>msg_class = Regular1BSMessage, has_outgoing = True, org = 6,
              address = [0x00, 0x00, 0x10, 0x05],
              body = [0x0b, 0x06, 0x09, 0x00, 0x00, 0x00, 0x00, 0x00, 0x10, 0x05, 0x00 :: byte]\<rparr>"
  define m2 where "m2 = \<lparr>msg_class = Regular1BSMessage, has_outgoing = True, org = 6,
              address = [0x01, 0x94, 0xE3, 0xB9],
              body = [0x0b, 0x06, 0x09, 0x00, 0x00, 0x00, 0x01, 0x94, 0xE3, 0xB9, 0x00 :: byte]\<rparr>"
  have c1: "msg_class m1 = Regular1BSMessage" by (simp add: m1_def)
  have r1: "reinterpret parse0 m1 = Some (m1\<lparr>has_outgoing := False\<rparr>)"
    by (simp add: parse0_def m1_def reinterpret_def to_bytes_2_big_def)
  have l1: "length (address (m1\<lparr>has_outgoing := False\<rparr>)) = 4" by (simp add: m1_def)
  have n1: "be_nat (address (m1\<lparr>has_outgoing := False\<rparr>)) = 0x1005"
    by (simp add: m1_def be_nat_def)
  have g1: "guess_sensor_type_by_address parse0 m1 = ''FTS14EM switch''"
    using guess_1bs_address_range [OF c1 r1 l1] unfolding n1 by simp
  have c2: "msg_class m2 = Regular1BSMessage" by (simp add: m2_def)
  have r2: "reinterpret parse0 m2 = Some (m2\<lparr>has_outgoing := False\<rparr>)"
    by (simp add: parse0_def m2_def reinterpret_def to_bytes_2_big_def)
  have l2: "length (address (m2\<lparr>has_outgoing := False\<rparr>)) = 4" by (simp add: m2_def)
  have n2: "be_nat (address (m2\<lparr>has_outgoing := False\<rparr>)) = 0x0194E3B9"
    by (simp add: m2_def be_nat_def)
  have g2: "guess_sensor_type_by_address parse0 m2 = ''???''"
    using guess_1bs_address_range [OF c2 r2 l2] unfolding n2 by simp
  show ?thesis
    unfolding Let_def parse0_def [symmetric] m1_def [symmetric] m2_def [symmetric]
    by (intro conjI) (rule c1 r1 l1 n1 g1 c2 r2 l2 n2 g2)+
qed

text \<open>
  C9. For an address from \<open>0\<close> to \<open>2^32 - 1\<close>, \<open>get_formatted_address\<close> returns a string
  of 11 characters: four octets of two upper-case hexadecimal digits each, separated by
  hyphens. On that range no other address gives the same string.
\<close>

theorem get_formatted_address_octets_injective:
  assumes "0 \<le> a" and "a < 2 ^ 32"
  shows "length (get_formatted_address a) = 11 \<and>
         (\<exists>o1 o2 o3 o4.
            get_formatted_address a = o1 @ ''-'' @ o2 @ ''-'' @ o3 @ ''-'' @ o4 \<and>
            (\<forall>x \<in> {o1, o2, o3, o4}. length x = 2 \<and> set x \<subseteq> set ''0123456789ABCDEF'')) \<and>
         (\<forall>b. 0 \<le> b \<and> b < 2 ^ 32 \<and> get_formatted_address b = get_formatted_address a
            \<longrightarrow> b = a)"
proof -
  define u where "u = str_upper (format_08x a)"
  have u: "u = map char_upper (fixed_hex 8 (nat a))"
    unfolding u_def by (simp add: str_upper_def format_08x_in_range [OF assms])
  have len: "length u = 8" unfolding u by simp
  have chars: "set u \<subseteq> set ''0123456789ABCDEF''"
    unfolding u by (rule upper_fixed_hex_set)
  have g: "get_formatted_address a =
             str_slice 0 2 u @ ''-'' @ str_slice 2 4 u @ ''-'' @ str_slice 4 6 u @ ''-'' @ str_slice 6 8 u"
    by (simp add: get_formatted_address_def Let_def u_def)
  have sl: "length (str_slice i j u) = 2 \<and> set (str_slice i j u) \<subseteq> set ''0123456789ABCDEF''"
    if "j = i + 2" "j \<le> 8" for i j
  proof -
    have "set (str_slice i j u) \<subseteq> set u"
      unfolding str_slice_def by (meson set_drop_subset set_take_subset subset_trans)
    then have "set (str_slice i j u) \<subseteq> set ''0123456789ABCDEF''"
      using chars by (rule subset_trans)
    moreover have "length (str_slice i j u) = 2"
      using that len by (simp add: str_slice_def)
    ultimately show ?thesis by simp
  qed
  have p1: "length (get_formatted_address a) = 11"
    unfolding g using len by (simp add: str_slice_def)
  have p2: "\<exists>o1 o2 o3 o4.
            get_formatted_address a = o1 @ ''-'' @ o2 @ ''-'' @ o3 @ ''-'' @ o4 \<and>
            (\<forall>x \<in> {o1, o2, o3, o4}. length x = 2 \<and> set x \<subseteq> set ''0123456789ABCDEF'')"
  proof (intro exI conjI)
    show "get_formatted_address a =
             str_slice 0 2 u @ ''-'' @ str_slice 2 4 u @ ''-'' @ str_slice 4 6 u @ ''-'' @ str_slice 6 8 u"
      by (rule g)
    show "\<forall>x \<in> {str_slice 0 2 u, str_slice 2 4 u, str_slice 4 6 u, str_slice 6 8 u}.
            length x = 2 \<and> set x \<subseteq> set ''0123456789ABCDEF''"
      using sl [of 2 0] sl [of 4 2] sl [of 6 4] sl [of 8 6] by simp
  qed
  have p3: "\<forall>b. 0 \<le> b \<and> b < 2 ^ 32 \<and> get_formatted_address b = get_formatted_address a
            \<longrightarrow> b = a"
  proof (intro allI impI, elim conjE)
    fix b :: int
    assume b: "0 \<le> b" "b < 2 ^ 32"
      and eq: "get_formatted_address b = get_formatted_address a"
    define v where "v = str_upper (format_08x b)"
    have v: "v = map char_upper (fixed_hex 8 (nat b))"
      unfolding v_def by (simp add: str_upper_def format_08x_in_range [OF b])
    have lv: "length v = 8" unfolding v by simp
    from eq have "hyphenate v = hyphenate u"
      by (simp add: get_formatted_address_hyphenate u_def v_def)
    from hyphenate_inj [OF lv len this] have "v = u" .
    then have "map char_upper (fixed_hex 8 (nat b)) = map char_upper (fixed_hex 8 (nat a))"
      unfolding u v .
    moreover have "nat b < 16 ^ 8" "nat a < 16 ^ 8" using assms b by simp_all
    ultimately have "nat b = nat a" by (rule upper_fixed_hex_inj [rotated 2])
    with assms(1) b(1) show "b = a" by simp
  qed
  from p1 p2 p3 show ?thesis by (intro conjI)
qed

theorem get_formatted_address_octets_injective_witness:
  "(0 :: int) \<le> 0x1A2B3C4D \<and> (0x1A2B3C4D :: int) < 2 ^ 32 \<and>
   length (get_formatted_address 0x1A2B3C4D) = 11 \<and>
   get_formatted_address 0x1A2B3C4D = ''1A-2B-3C-4D''"
proof -
  have a: "(0 :: int) \<le> 0x1A2B3C4D" by simp
  have b: "(0x1A2B3C4D :: int) < 2 ^ 32" by simp
  have c: "length (get_formatted_address 0x1A2B3C4D) = 11"
    using get_formatted_address_octets_injective [OF a b] by (rule conjunct1)
  have d: "get_formatted_address 0x1A2B3C4D = ''1A-2B-3C-4D''"
    by (simp add: get_formatted_address_def format_08x_def zfill_def str_upper_def
        char_upper_hex_digit upper_hex_digit_def str_slice_def hex_nat.simps)
  from a b c d show ?thesis by (intro conjI)
qed

text \<open>
  C2. Feeding a fresh accumulator any sequence of sensor telegrams returns, and whenever
  a run of \<open>add_sensor\<close> calls returns, the ids of the records are pairwise distinct, the
  recorded addresses are pairwise distinct, and there is one record per recorded address
  (the id is the formatted source address, and the formatting is injective). Two sensor
  telegrams with the same address give exactly one record; two with different addresses
  give two.
\<close>

theorem add_sensor_dedup:
  "(list_all live_sensor_telegram ms \<longrightarrow>
      (\<exists>s'. add_sensors parse (HaConfig_init d l) ms = Inr s')) \<and>
   (add_sensors parse (HaConfig_init d l) ms = Inr s \<longrightarrow>
      distinct (map obj_id (all_records s)) \<and> distinct (sener_id_list s) \<and>
      length (all_records s) = length (sener_id_list s)) \<and>
   (live_sensor_telegram m1 \<and> live_sensor_telegram m2 \<and> address m1 = address m2 \<longrightarrow>
      (\<exists>s2. add_sensors parse (HaConfig_init d l) [m1, m2] = Inr s2 \<and>
         length (all_records s2) = 1)) \<and>
   (live_sensor_telegram m1 \<and> live_sensor_telegram m2 \<and> address m1 \<noteq> address m2 \<longrightarrow>
      (\<exists>s2. add_sensors parse (HaConfig_init d l) [m1, m2] = Inr s2 \<and>
         length (all_records s2) = 2))"
proof (intro conjI impI)
  assume "list_all live_sensor_telegram ms"
  then show "\<exists>s'. add_sensors parse (HaConfig_init d l) ms = Inr s'"
    by (rule add_sensors_live_returns)
next
  assume run: "add_sensors parse (HaConfig_init d l) ms = Inr s"
  from init_inv [of d l] have i1: "distinct (sener_id_list (HaConfig_init d l))"
    and i2: "mset (map obj_id (all_records (HaConfig_init d l))) =
      mset (map sensor_address_str (sener_id_list (HaConfig_init d l)))"
    by simp_all
  from add_sensors_inv [OF run i1 i2]
  have a: "distinct (sener_id_list s)"
    and b: "mset (map obj_id (all_records s)) = mset (map sensor_address_str (sener_id_list s))"
    by simp_all
  from distinct_ids_of_inv [OF a b]
  show "distinct (map obj_id (all_records s))"
    and "length (all_records s) = length (sener_id_list s)"
    by simp_all
  from a show "distinct (sener_id_list s)" .
next
  assume "live_sensor_telegram m1 \<and> live_sensor_telegram m2 \<and> address m1 = address m2"
  then show "\<exists>s2. add_sensors parse (HaConfig_init d l) [m1, m2] = Inr s2 \<and>
         length (all_records s2) = 1"
    using add_sensor_twice_same [of m1 m2 parse d l] by simp
next
  assume "live_sensor_telegram m1 \<and> live_sensor_telegram m2 \<and> address m1 \<noteq> address m2"
  then show "\<exists>s2. add_sensors parse (HaConfig_init d l) [m1, m2] = Inr s2 \<and>
         length (all_records s2) = 2"
    using add_sensor_twice_different [of m1 m2 parse d l] by simp
qed


theorem add_sensor_dedup_witness:
  "(let p = (\<lambda>d. None);
        s0 = HaConfig_init 0x200 False;
        mA = \<lparr>msg_class = RPSMessage, has_outgoing = True, org = 5,
              address = [0xFF, 0xDB, 0x00, 0x01], body = []\<rparr>;
        mB = \<lparr>msg_class = Regular4BSMessage, has_outgoing = True, org = 7,
              address = [0x01, 0x02, 0x03, 0x04], body = []\<rparr>;
        s3 = \<lparr>eltako =
                [(''binary_sensor'',
                  [\<lparr>obj_id = ''FF-DB-00-01'', obj_eep = ''F6-02-01'',
                    obj_name = ''Switch FF-DB-00-01'', obj_sender = None,
                    obj_device_class = Some ''window / door / smoke / motion / ?'',
                    obj_time_closes = None, obj_time_opens = None,
                    obj_comment = Some
                      ''Sensor Type: Wall Switch /Rocker Switch, Derived from Msg Type: RPSMessage''\<rparr>]),
                 (''sensor'',
                  [\<lparr>obj_id = ''01-02-03-04'', obj_eep = ''A5-??-??'',
                    obj_name = ''4 Byte Communication 01-02-03-04'', obj_sender = None,
                    obj_device_class = None,
                    obj_time_closes = None, obj_time_opens = None,
                    obj_comment = Some
                      ''Sensor Type: Multi-Sensor ? , Derived from Msg Type: Regular4BSMessage''\<rparr>])],
              sener_id_list = [[0xFF, 0xDB, 0x00, 0x01], [0x01, 0x02, 0x03, 0x04]],
              sender_address = 0x200, export_logger = False\<rparr>
    in list_all live_sensor_telegram [mA, mA, mB] \<and>
       add_sensors p s0 [mA, mA, mB] = Inr s3 \<and>
       distinct (map obj_id (all_records s3)) \<and>
       live_sensor_telegram mA \<and> live_sensor_telegram mB \<and>
       address mA = address mA \<and> address mA \<noteq> address mB \<and>
       (\<exists>s2. add_sensors p s0 [mA, mA] = Inr s2 \<and> length (all_records s2) = 1) \<and>
       (\<exists>s2. add_sensors p s0 [mA, mB] = Inr s2 \<and> length (all_records s2) = 2))"
proof -
  define p :: "byte list \<Rightarrow> telegram option" where "p = (\<lambda>d. None)"
  define mA where "mA = \<lparr>msg_class = RPSMessage, has_outgoing = True, org = 5,
              address = [0xFF, 0xDB, 0x00, 0x01 :: byte], body = []\<rparr>"
  define mB where "mB = \<lparr>msg_class = Regular4BSMessage, has_outgoing = True, org = 7,
              address = [0x01, 0x02, 0x03, 0x04 :: byte], body = []\<rparr>"
  define s3 where "s3 = \<lparr>eltako =
                [(''binary_sensor'',
                  [\<lparr>obj_id = ''FF-DB-00-01'', obj_eep = ''F6-02-01'',
                    obj_name = ''Switch FF-DB-00-01'', obj_sender = None,
                    obj_device_class = Some ''window / door / smoke / motion / ?'',
                    obj_time_closes = None, obj_time_opens = None,
                    obj_comment = Some
                      ''Sensor Type: Wall Switch /Rocker Switch, Derived from Msg Type: RPSMessage''\<rparr>]),
                 (''sensor'',
                  [\<lparr>obj_id = ''01-02-03-04'', obj_eep = ''A5-??-??'',
                    obj_name = ''4 Byte Communication 01-02-03-04'', obj_sender = None,
                    obj_device_class = None,
                    obj_time_closes = None, obj_time_opens = None,
                    obj_comment = Some
                      ''Sensor Type: Multi-Sensor ? , Derived from Msg Type: Regular4BSMessage''\<rparr>])],
              sener_id_list = [[0xFF, 0xDB, 0x00, 0x01], [0x01, 0x02, 0x03, 0x04]],
              sender_address = 0x200, export_logger = False\<rparr>"
  have run: "add_sensors p (HaConfig_init 0x200 False) [mA, mA, mB] = Inr s3"
    unfolding p_def mA_def mB_def s3_def by code_simp
  have lA: "live_sensor_telegram mA"
    by (simp add: live_sensor_telegram_def mA_def SENSOR_MESSAGE_TYPES_def)
  have lB: "live_sensor_telegram mB"
    by (simp add: live_sensor_telegram_def mB_def SENSOR_MESSAGE_TYPES_def)
  have eq: "address mA = address mA" by (rule refl)
  have ne: "address mA \<noteq> address mB" by (simp add: mA_def mB_def)
  note thmA = add_sensor_dedup [where parse = p and d = "0x200" and l = False
      and ms = "[mA, mA, mB]" and s = s3 and ?m1.0 = mA and ?m2.0 = mA]
  note thmB = add_sensor_dedup [where parse = p and d = "0x200" and l = False
      and ms = "[mA, mA, mB]" and s = s3 and ?m1.0 = mA and ?m2.0 = mB]
  have ll: "list_all live_sensor_telegram [mA, mA, mB]" using lA lB by simp
  from thmA run have d: "distinct (map obj_id (all_records s3))" by simp
  from thmA lA eq
  have one: "\<exists>s2. add_sensors p (HaConfig_init 0x200 False) [mA, mA] = Inr s2 \<and>
      length (all_records s2) = 1" by simp
  from thmB lA lB ne
  have two: "\<exists>s2. add_sensors p (HaConfig_init 0x200 False) [mA, mB] = Inr s2 \<and>
      length (all_records s2) = 2" by simp
  show ?thesis
    unfolding Let_def p_def [symmetric] mA_def [symmetric] mB_def [symmetric] s3_def [symmetric]
    by (intro conjI) (rule ll run d lA lB eq ne one two)+
qed

end
